theory Spec2Isabelle
  imports Complex_Main
begin

section \<open>Errors (lib/errors.ts)\<close>

text \<open>
  \<open>AppError\<close> carries an HTTP status code, a machine code and a message; the subclasses
  only fix the first two. Errors that are not \<open>AppError\<close>s (thrown by the Prisma client
  or by the JavaScript runtime) are kept apart, as the error handler does.
\<close>

datatype error =
    AppError (statusCode: nat) (code: string) (message: string)
  | PrismaClientKnownRequestError string
  | TypeError string


definition UnauthorizedError :: "string \<Rightarrow> error" where
  "UnauthorizedError msg = AppError 401 ''UNAUTHORIZED'' msg"

definition ForbiddenError :: "string \<Rightarrow> error" where
  "ForbiddenError msg = AppError 403 ''FORBIDDEN'' msg"

definition NotFoundError :: "string \<Rightarrow> error" where
  "NotFoundError resource = AppError 404 ''NOT_FOUND'' (resource @ '' not found'')"

section \<open>Strings\<close>

definition startsWith :: "string \<Rightarrow> string \<Rightarrow> bool" where
  "startsWith s p = (take (length p) s = p)"

definition slice :: "nat \<Rightarrow> string \<Rightarrow> string" where
  "slice n s = drop n s"

section \<open>The JavaScript runtime\<close>

text \<open>
  A JavaScript value as a request can hold it; \<open>JsBuiltin\<close> is a built-in function or
  object of the runtime, by name.
\<close>

datatype JsValue =
    JsUndefined
  | JsNull
  | JsBool bool
  | JsNum real
  | JsStr string
  | JsArr "JsValue list"
  | JsObj "(string \<times> JsValue) list"
  | JsBuiltin string

fun truthy :: "JsValue \<Rightarrow> bool" where
  "truthy JsUndefined = False"
| "truthy JsNull = False"
| "truthy (JsBool b) = b"
| "truthy (JsNum x) = (x \<noteq> 0)"
| "truthy (JsStr s) = (s \<noteq> [])"
| "truthy (JsArr xs) = True"
| "truthy (JsObj kvs) = True"
| "truthy (JsBuiltin f) = True"

text \<open>
  What the code takes from the runtime it runs on. These are tables and rules of the
  runtime, not of the repository, and the code is modelled for every runtime:
  \<^item> \<open>toLowerCase\<close> is \<open>String.prototype.toLowerCase\<close>, the case folding of Unicode;
  \<^item> \<open>addDays d n\<close> is \<open>d.setDate(d.getDate() + n)\<close>: the same time of day \<open>n\<close>
    calendar days later in the time zone of the process (\<open>n\<close> times 24 hours, give or
    take a daylight-saving shift);
  \<^item> \<open>objectPrototype\<close> lists the names of the properties that every plain object
    inherits from \<open>Object.prototype\<close> (\<open>constructor\<close>, \<open>toString\<close>, ...); what is
    inherited under such a name is a built-in function or object;
  \<^item> \<open>getProperty v name\<close> is \<open>v[name]\<close> for a value that is not a plain object (an
    array, a string, a number, a boolean): its own properties (\<open>length\<close>, indices) and
    those of its prototypes.
\<close>

record Runtime =
  toLowerCase :: "string \<Rightarrow> string"
  addDays :: "nat \<Rightarrow> nat \<Rightarrow> nat"
  objectPrototype :: "string list"
  getProperty :: "JsValue \<Rightarrow> string \<Rightarrow> JsValue"

text \<open>A property read on a plain object that has no own property of that name.\<close>

definition inherited :: "Runtime \<Rightarrow> string \<Rightarrow> JsValue" where
  "inherited rt name' = (if name' \<in> set (objectPrototype rt) then JsBuiltin name' else JsUndefined)"

section \<open>The token codec (jsonwebtoken)\<close>

text \<open>
  The library is outside the repository. It is modelled symbolically, keeping what the
  service relies on: a token is a string; \<open>jwt.sign\<close> is a function of the payload, the
  key, the clock in whole seconds (\<open>iat\<close>) and the lifetime (\<open>exp = iat + expiresIn\<close>)
  and of nothing else (HS256 has no randomness); \<open>jwt.verify\<close> recomputes the signature
  under the given key and compares it, and only then looks at \<open>exp\<close>. The serialisation
  below stands for base64url JSON and the keyed hash for HMAC-SHA256: it is injective in
  the key, so a signature made under another key does not verify. The decoded payload
  is the \<open>JwtPayload\<close> the service typed it as; the \<open>iat\<close> and \<open>exp\<close> fields that the
  library adds to the decoded object are left out of it.
\<close>

datatype Role = ADMIN | CLIENT

record JwtPayload =
  userId :: string
  email :: string
  role :: Role

datatype jwt_error = TokenExpiredError | JsonWebTokenError

fun putBits :: "nat \<Rightarrow> string" where
  "putBits n = (if n = 0 then [] else (if odd n then CHR ''1'' else CHR ''0'') # putBits (n div 2))"

declare putBits.simps [simp del]

fun getBits :: "string \<Rightarrow> nat" where
  "getBits [] = 0"
| "getBits (c # cs) = (if c = CHR ''1'' then 1 else 0) + 2 * getBits cs"

definition putNum :: "nat \<Rightarrow> string" where
  "putNum n = putBits n @ '':''"

definition putStr :: "string \<Rightarrow> string" where
  "putStr s = putNum (length s) @ s"

definition takeNum :: "string \<Rightarrow> (nat \<times> string) option" where
  "takeNum s =
     (case dropWhile (\<lambda>c. c \<noteq> CHR '':'') s of
        [] \<Rightarrow> None
      | _ # rest \<Rightarrow> Some (getBits (takeWhile (\<lambda>c. c \<noteq> CHR '':'') s), rest))"

definition takeStr :: "string \<Rightarrow> (string \<times> string) option" where
  "takeStr s =
     (case takeNum s of
        None \<Rightarrow> None
      | Some (n, rest) \<Rightarrow> if length rest < n then None else Some (take n rest, drop n rest))"

definition putRole :: "Role \<Rightarrow> string" where
  "putRole r = putStr (case r of ADMIN \<Rightarrow> ''ADMIN'' | CLIENT \<Rightarrow> ''CLIENT'')"

definition takeRole :: "string \<Rightarrow> (Role \<times> string) option" where
  "takeRole s =
     (case takeStr s of
        None \<Rightarrow> None
      | Some (r, rest) \<Rightarrow>
          if r = ''ADMIN'' then Some (ADMIN, rest)
          else if r = ''CLIENT'' then Some (CLIENT, rest)
          else None)"

definition jwtBody :: "JwtPayload \<Rightarrow> nat \<Rightarrow> nat \<Rightarrow> string" where
  "jwtBody p iat expAt = putStr (userId p) @ putStr (email p) @ putRole (role p) @ putNum iat @ putNum expAt"

definition hmac :: "string \<Rightarrow> string \<Rightarrow> string" where
  "hmac key body = key @ body"

definition jwt_sign :: "JwtPayload \<Rightarrow> string \<Rightarrow> nat \<Rightarrow> nat \<Rightarrow> string" where
  "jwt_sign payload secret expiresIn clock =
     (let body = jwtBody payload clock (clock + expiresIn)
      in body @ ''.'' @ hmac secret body)"

definition jwt_decode :: "string \<Rightarrow> (JwtPayload \<times> nat \<times> nat \<times> string) option" where
  "jwt_decode token =
     (case takeStr token of None \<Rightarrow> None | Some (uid, s1) \<Rightarrow>
      case takeStr s1 of None \<Rightarrow> None | Some (em, s2) \<Rightarrow>
      case takeRole s2 of None \<Rightarrow> None | Some (r, s3) \<Rightarrow>
      case takeNum s3 of None \<Rightarrow> None | Some (iat, s4) \<Rightarrow>
      case takeNum s4 of None \<Rightarrow> None | Some (expAt, s5) \<Rightarrow>
      case s5 of [] \<Rightarrow> None | c # sig \<Rightarrow>
        if c = CHR ''.'' then Some (\<lparr>userId = uid, email = em, role = r\<rparr>, iat, expAt, sig)
        else None)"

definition jwt_verify :: "string \<Rightarrow> string \<Rightarrow> nat \<Rightarrow> jwt_error + JwtPayload" where
  "jwt_verify token secret clock =
     (case jwt_decode token of
        None \<Rightarrow> Inl JsonWebTokenError
      | Some (payload, iat, expAt, sig) \<Rightarrow>
          if sig \<noteq> hmac secret (jwtBody payload iat expAt) then Inl JsonWebTokenError
          else if clock \<ge> expAt then Inl TokenExpiredError
          else Inr payload)"

section \<open>The credential hasher (bcrypt)\<close>

text \<open>
  Also an outside library, modelled as an ideal salted hash: the hash string records the
  cost, the salt and a digest that determines the (at most 72 bytes of the) secret.
  \<open>bcrypt.hash\<close> draws the salt at random; the draw is an explicit argument.
  \<open>bcrypt.compare\<close> answers false, without raising, on a string that is not a hash.
\<close>

definition bcrypt_hash :: "string \<Rightarrow> string \<Rightarrow> nat \<Rightarrow> string" where
  "bcrypt_hash salt password rounds = ''$2b$'' @ putNum rounds @ putStr salt @ take 72 password"

definition bcrypt_compare :: "string \<Rightarrow> string \<Rightarrow> bool" where
  "bcrypt_compare password hash =
     (if \<not> startsWith hash ''$2b$'' then False
      else case takeNum (slice 4 hash) of None \<Rightarrow> False | Some (rounds, s1) \<Rightarrow>
           case takeStr s1 of None \<Rightarrow> False | Some (salt, digest) \<Rightarrow>
             digest = take 72 password)"

section \<open>Configuration and the record store\<close>

text \<open>
  \<open>config.jwt\<close>: the two keys and the two lifetimes. The lifetimes are the configured
  spans (\<open>15m\<close>, \<open>7d\<close> by default) in seconds.
\<close>

record Config =
  accessSecret :: string
  refreshSecret :: string
  accessExpiry :: nat
  refreshExpiry :: nat

record User =
  user_id :: string
  user_email :: string
  user_name :: string
  user_passwordHash :: string
  user_role :: Role
  user_active :: bool

text \<open>A \<open>Date\<close> is its number of milliseconds since the epoch.\<close>

record RefreshToken =
  rt_id :: nat
  rt_token :: string
  rt_userId :: string
  rt_expiresAt :: nat

record Db =
  users :: "User list"
  refreshTokens :: "RefreshToken list"
  nextRowId :: nat

text \<open>
  The Prisma calls the service makes, on tables kept as lists of rows. \<open>delete\<close> and
  \<open>update\<close> are only ever called for a row that was just read.
\<close>

definition user_findUnique_email :: "Db \<Rightarrow> string \<Rightarrow> User option" where
  "user_findUnique_email db e = find (\<lambda>u. user_email u = e) (users db)"

definition user_findUnique_id :: "Db \<Rightarrow> string \<Rightarrow> User option" where
  "user_findUnique_id db i = find (\<lambda>u. user_id u = i) (users db)"

definition user_update_passwordHash :: "Db \<Rightarrow> string \<Rightarrow> string \<Rightarrow> Db" where
  "user_update_passwordHash db i h =
     db\<lparr>users := map (\<lambda>u. if user_id u = i then u\<lparr>user_passwordHash := h\<rparr> else u) (users db)\<rparr>"

definition refreshToken_findUnique :: "Db \<Rightarrow> string \<Rightarrow> RefreshToken option" where
  "refreshToken_findUnique db tok = find (\<lambda>r. rt_token r = tok) (refreshTokens db)"

text \<open>
  Modelled from the spec: the Prisma schema is not among the sources. The service reads
  the table with \<open>findUnique\<close> on \<open>token\<close>, which Prisma offers for unique columns
  only, and the spec keeps at most one row per token string: an insert of a token that is
  already stored is rejected by the store (Prisma's P2002) and nothing is written. The row
  id is the store's own default; here it is the next number of a counter.
\<close>

definition refreshToken_create :: "Db \<Rightarrow> string \<Rightarrow> string \<Rightarrow> nat \<Rightarrow> error + Db" where
  "refreshToken_create db tok uid expiresAt =
     (if refreshToken_findUnique db tok \<noteq> None
      then Inl (PrismaClientKnownRequestError ''P2002'')
      else Inr (db\<lparr>refreshTokens := refreshTokens db @
                    [\<lparr>rt_id = nextRowId db, rt_token = tok, rt_userId = uid, rt_expiresAt = expiresAt\<rparr>],
                  nextRowId := Suc (nextRowId db)\<rparr>))"

definition refreshToken_delete :: "Db \<Rightarrow> nat \<Rightarrow> Db" where
  "refreshToken_delete db i = db\<lparr>refreshTokens := filter (\<lambda>r. rt_id r \<noteq> i) (refreshTokens db)\<rparr>"

definition refreshToken_deleteMany_token :: "Db \<Rightarrow> string \<Rightarrow> Db" where
  "refreshToken_deleteMany_token db tok =
     db\<lparr>refreshTokens := filter (\<lambda>r. rt_token r \<noteq> tok) (refreshTokens db)\<rparr>"

definition refreshToken_deleteMany_userId :: "Db \<Rightarrow> string \<Rightarrow> Db" where
  "refreshToken_deleteMany_userId db uid =
     db\<lparr>refreshTokens := filter (\<lambda>r. rt_userId r \<noteq> uid) (refreshTokens db)\<rparr>"

section \<open>AuthService (services/auth.service.ts)\<close>

text \<open>
  Every operation takes the store and the clock reading \<open>now\<close> (milliseconds) and
  returns its outcome together with the store it leaves behind: an operation that throws
  may already have written. \<open>login\<close> also takes the runtime, for its case folding and
  its calendar.
\<close>

definition SALT_ROUNDS :: nat where
  "SALT_ROUNDS = 12"

definition hashPassword :: "string \<Rightarrow> string \<Rightarrow> string" where
  "hashPassword salt password = bcrypt_hash salt password SALT_ROUNDS"

definition comparePassword :: "string \<Rightarrow> string \<Rightarrow> bool" where
  "comparePassword password hash = bcrypt_compare password hash"

definition generateAccessToken :: "Config \<Rightarrow> nat \<Rightarrow> JwtPayload \<Rightarrow> string" where
  "generateAccessToken cfg now payload =
     jwt_sign payload (accessSecret cfg) (accessExpiry cfg) (now div 1000)"

definition generateRefreshToken :: "Config \<Rightarrow> nat \<Rightarrow> JwtPayload \<Rightarrow> string" where
  "generateRefreshToken cfg now payload =
     jwt_sign payload (refreshSecret cfg) (refreshExpiry cfg) (now div 1000)"

record UserSummary =
  sum_id :: string
  sum_email :: string
  sum_name :: string
  sum_role :: Role

record LoginResult =
  login_accessToken :: string
  login_refreshToken :: string
  login_user :: UserSummary

record RefreshResult =
  accessToken :: string
  refreshToken :: string

definition login ::
  "Runtime \<Rightarrow> Config \<Rightarrow> Db \<Rightarrow> nat \<Rightarrow> string \<Rightarrow> string \<Rightarrow> bool \<Rightarrow> (error + LoginResult) \<times> Db" where
  "login rt cfg db now email' password rememberMe =
     (case user_findUnique_email db (toLowerCase rt email') of
        None \<Rightarrow> (Inl (UnauthorizedError ''Invalid email or password''), db)
      | Some user \<Rightarrow>
          if \<not> user_active user then (Inl (UnauthorizedError ''Account is deactivated''), db)
          else if \<not> comparePassword password (user_passwordHash user)
          then (Inl (UnauthorizedError ''Invalid email or password''), db)
          else
            let payload = \<lparr>userId = user_id user, email = user_email user, role = user_role user\<rparr>;
                accessToken' = generateAccessToken cfg now payload;
                refreshToken' = generateRefreshToken cfg now payload;
                expiresAt = (if rememberMe then addDays rt now 30 else addDays rt now 7)
            in case refreshToken_create db refreshToken' (user_id user) expiresAt of
                 Inl e \<Rightarrow> (Inl e, db)
               | Inr db' \<Rightarrow>
                   (Inr \<lparr>login_accessToken = accessToken',
                         login_refreshToken = refreshToken',
                         login_user = \<lparr>sum_id = user_id user, sum_email = user_email user,
                                        sum_name = user_name user, sum_role = user_role user\<rparr>\<rparr>,
                    db'))"

text \<open>
  \<open>include: { user: true }\<close> joins the owner of the row; were it missing, reading
  \<open>storedToken.user.active\<close> would raise a \<open>TypeError\<close>.
\<close>

definition refreshAccessToken :: "Config \<Rightarrow> Db \<Rightarrow> nat \<Rightarrow> string \<Rightarrow> (error + RefreshResult) \<times> Db" where
  "refreshAccessToken cfg db now refreshToken' =
     (case jwt_verify refreshToken' (refreshSecret cfg) (now div 1000) of
        Inl _ \<Rightarrow> (Inl (UnauthorizedError ''Invalid refresh token''), db)
      | Inr payload \<Rightarrow>
          (case refreshToken_findUnique db refreshToken' of
             None \<Rightarrow> (Inl (UnauthorizedError ''Refresh token not found''), db)
           | Some storedToken \<Rightarrow>
               if rt_expiresAt storedToken < now
               then (Inl (UnauthorizedError ''Refresh token expired''),
                     refreshToken_delete db (rt_id storedToken))
               else
                 (case user_findUnique_id db (rt_userId storedToken) of
                    None \<Rightarrow> (Inl (TypeError ''storedToken.user is null''), db)
                  | Some user \<Rightarrow>
                      if \<not> user_active user
                      then (Inl (UnauthorizedError ''Account is deactivated''), db)
                      else
                        let newPayload = \<lparr>userId = user_id user, email = user_email user,
                                          role = user_role user\<rparr>;
                            newAccessToken = generateAccessToken cfg now newPayload;
                            newRefreshToken = generateRefreshToken cfg now newPayload;
                            db1 = refreshToken_delete db (rt_id storedToken)
                        in case refreshToken_create db1 newRefreshToken (user_id user)
                                  (now + 7 * 24 * 60 * 60 * 1000) of
                             Inl e \<Rightarrow> (Inl e, db1)
                           | Inr db2 \<Rightarrow>
                               (Inr \<lparr>accessToken = newAccessToken,
                                     refreshToken = newRefreshToken\<rparr>, db2))))"

definition logout :: "Db \<Rightarrow> string \<Rightarrow> Db" where
  "logout db refreshToken' = refreshToken_deleteMany_token db refreshToken'"

definition logoutAll :: "Db \<Rightarrow> string \<Rightarrow> Db" where
  "logoutAll db uid = refreshToken_deleteMany_userId db uid"


definition adminResetPassword :: "Db \<Rightarrow> string \<Rightarrow> string \<Rightarrow> string \<Rightarrow> (error + unit) \<times> Db" where
  "adminResetPassword db salt clientId newPassword =
     (case user_findUnique_id db clientId of
        None \<Rightarrow> (Inl (NotFoundError ''User''), db)
      | Some user \<Rightarrow>
          let newHash = hashPassword salt newPassword;
              db1 = user_update_passwordHash db clientId newHash
          in (Inr (), logoutAll db1 clientId))"

section \<open>The access guard (middleware/auth.ts)\<close>

text \<open>
  The body is a JavaScript value; path parameters are strings. \<open>Inl e\<close> is \<open>next(e)\<close>;
  \<open>Inr req\<close> is \<open>next()\<close> with the request as the middleware leaves it.
\<close>

record AuthenticatedRequest =
  authorization :: "string option"
  params :: "(string \<times> string) list"
  body :: JsValue
  user :: "JwtPayload option"

text \<open>
  \<open>req.params[name]\<close> and \<open>req.body?.[name]\<close>. \<open>req.params\<close> is a plain object of
  strings: a name it has no own property for is looked up in \<open>Object.prototype\<close>, and
  so it is for a body that is a plain object. The optional chaining answers
  \<open>undefined\<close> for a body that is \<open>undefined\<close> or \<open>null\<close>.
\<close>

definition getParam :: "Runtime \<Rightarrow> AuthenticatedRequest \<Rightarrow> string \<Rightarrow> JsValue" where
  "getParam rt req name' =
     (case map_of (params req) name' of None \<Rightarrow> inherited rt name' | Some s \<Rightarrow> JsStr s)"

definition getBodyField :: "Runtime \<Rightarrow> AuthenticatedRequest \<Rightarrow> string \<Rightarrow> JsValue" where
  "getBodyField rt req name' =
     (case body req of
        JsUndefined \<Rightarrow> JsUndefined
      | JsNull \<Rightarrow> JsUndefined
      | JsObj kvs \<Rightarrow> (case map_of kvs name' of None \<Rightarrow> inherited rt name' | Some v \<Rightarrow> v)
      | v \<Rightarrow> getProperty rt v name')"

definition bearerToken :: "AuthenticatedRequest \<Rightarrow> string option" where
  "bearerToken req =
     (case authorization req of
        None \<Rightarrow> None
      | Some authHeader \<Rightarrow>
          if startsWith authHeader ''Bearer '' then Some (slice 7 authHeader) else None)"

definition authenticate :: "Config \<Rightarrow> Db \<Rightarrow> nat \<Rightarrow> AuthenticatedRequest \<Rightarrow> error + AuthenticatedRequest" where
  "authenticate cfg db now req =
     (case bearerToken req of
        None \<Rightarrow> Inl (UnauthorizedError ''No token provided'')
      | Some token \<Rightarrow>
          if token = [] then Inl (UnauthorizedError ''No token provided'')
          else
            (case jwt_verify token (accessSecret cfg) (now div 1000) of
               Inl TokenExpiredError \<Rightarrow> Inl (UnauthorizedError ''Token expired'')
             | Inl JsonWebTokenError \<Rightarrow> Inl (UnauthorizedError ''Invalid token'')
             | Inr payload \<Rightarrow>
                 (case user_findUnique_id db (userId payload) of
                    None \<Rightarrow> Inl (UnauthorizedError ''User not found or inactive'')
                  | Some u \<Rightarrow>
                      if \<not> user_active u
                      then Inl (UnauthorizedError ''User not found or inactive'')
                      else Inr (req\<lparr>user := Some payload\<rparr>))))"

definition requireRole :: "Role list \<Rightarrow> AuthenticatedRequest \<Rightarrow> error + AuthenticatedRequest" where
  "requireRole roles req =
     (case user req of
        None \<Rightarrow> Inl (UnauthorizedError ''Not authenticated'')
      | Some u \<Rightarrow>
          if role u \<notin> set roles then Inl (ForbiddenError ''Insufficient permissions'')
          else Inr req)"

definition resourceClientId :: "Runtime \<Rightarrow> string \<Rightarrow> AuthenticatedRequest \<Rightarrow> JsValue" where
  "resourceClientId rt paramName req =
     (if truthy (getParam rt req paramName) then getParam rt req paramName
      else getBodyField rt req paramName)"

definition requireOwnership ::
  "Runtime \<Rightarrow> string \<Rightarrow> AuthenticatedRequest \<Rightarrow> error + AuthenticatedRequest" where
  "requireOwnership rt paramName req =
     (case user req of
        None \<Rightarrow> Inl (UnauthorizedError ''Not authenticated'')
      | Some u \<Rightarrow>
          if role u = ADMIN then Inr req
          else if truthy (resourceClientId rt paramName req)
                  \<and> resourceClientId rt paramName req \<noteq> JsStr (userId u)
          then Inl (ForbiddenError ''Cannot access another user's data'')
          else Inr req)"

section \<open>Sample data\<close>

text \<open>
  The runtime of the samples. Its process runs in UTC, where a calendar day is 24 hours.
  Its strings are ASCII: \<open>asciiToLowerCase\<close> is what \<open>String.prototype.toLowerCase\<close>
  does on those. \<open>Object.prototype\<close> has its twelve standard properties. The samples
  have a body that is a plain object or none; for other values this runtime lists
  \<open>length\<close> and what \<open>Object.prototype\<close> provides, but neither indices nor the
  methods particular to arrays, strings, numbers and booleans.
\<close>

definition lowerChar :: "char \<Rightarrow> char" where
  "lowerChar c =
     (if c = CHR ''A'' then CHR ''a'' else if c = CHR ''B'' then CHR ''b''
      else if c = CHR ''C'' then CHR ''c'' else if c = CHR ''D'' then CHR ''d''
      else if c = CHR ''E'' then CHR ''e'' else if c = CHR ''F'' then CHR ''f''
      else if c = CHR ''G'' then CHR ''g'' else if c = CHR ''H'' then CHR ''h''
      else if c = CHR ''I'' then CHR ''i'' else if c = CHR ''J'' then CHR ''j''
      else if c = CHR ''K'' then CHR ''k'' else if c = CHR ''L'' then CHR ''l''
      else if c = CHR ''M'' then CHR ''m'' else if c = CHR ''N'' then CHR ''n''
      else if c = CHR ''O'' then CHR ''o'' else if c = CHR ''P'' then CHR ''p''
      else if c = CHR ''Q'' then CHR ''q'' else if c = CHR ''R'' then CHR ''r''
      else if c = CHR ''S'' then CHR ''s'' else if c = CHR ''T'' then CHR ''t''
      else if c = CHR ''U'' then CHR ''u'' else if c = CHR ''V'' then CHR ''v''
      else if c = CHR ''W'' then CHR ''w'' else if c = CHR ''X'' then CHR ''x''
      else if c = CHR ''Y'' then CHR ''y'' else if c = CHR ''Z'' then CHR ''z''
      else c)"

definition asciiToLowerCase :: "string \<Rightarrow> string" where
  "asciiToLowerCase s = map lowerChar s"

definition objectPrototypeNames :: "string list" where
  "objectPrototypeNames =
     [''constructor'', ''__defineGetter__'', ''__defineSetter__'', ''hasOwnProperty'',
      ''__lookupGetter__'', ''__lookupSetter__'', ''isPrototypeOf'', ''propertyIsEnumerable'',
      ''toString'', ''valueOf'', ''__proto__'', ''toLocaleString'']"

definition sampleInherited :: "string \<Rightarrow> JsValue" where
  "sampleInherited name' =
     (if name' \<in> set objectPrototypeNames then JsBuiltin name' else JsUndefined)"

definition sampleGetProperty :: "JsValue \<Rightarrow> string \<Rightarrow> JsValue" where
  "sampleGetProperty v name' =
     (case v of
        JsArr xs \<Rightarrow> if name' = ''length'' then JsNum (real (length xs)) else sampleInherited name'
      | JsStr s \<Rightarrow> if name' = ''length'' then JsNum (real (length s)) else sampleInherited name'
      | _ \<Rightarrow> sampleInherited name')"

definition sampleRuntime :: Runtime where
  "sampleRuntime =
     \<lparr>toLowerCase = asciiToLowerCase,
      addDays = (\<lambda>d n. d + n * 24 * 60 * 60 * 1000),
      objectPrototype = objectPrototypeNames,
      getProperty = sampleGetProperty\<rparr>"

text \<open>
  A configuration with the default lifetimes (15 minutes, 7 days), a store with an
  administrator, an active client and a deactivated client, and clock readings.
\<close>

definition cfg0 :: Config where
  "cfg0 = \<lparr>accessSecret = ''access-secret-0123456789-abcdefghij'',
           refreshSecret = ''refresh-secret-0123456789-abcdefghi'',
           accessExpiry = 900, refreshExpiry = 604800\<rparr>"

definition coach :: User where
  "coach = \<lparr>user_id = ''u0'', user_email = ''admin@fitportal.com'', user_name = ''Coach Mike'',
            user_passwordHash = hashPassword ''s0'' ''Admin123!'',
            user_role = ADMIN, user_active = True\<rparr>"

definition alice :: User where
  "alice = \<lparr>user_id = ''u1'', user_email = ''alice@example.com'', user_name = ''Alice'',
            user_passwordHash = hashPassword ''s1'' ''Client123!'',
            user_role = CLIENT, user_active = True\<rparr>"

definition bob :: User where
  "bob = \<lparr>user_id = ''u2'', user_email = ''bob@example.com'', user_name = ''Bob'',
          user_passwordHash = hashPassword ''s2'' ''Client456!'',
          user_role = CLIENT, user_active = False\<rparr>"

definition db0 :: Db where
  "db0 = \<lparr>users = [coach, alice, bob], refreshTokens = [], nextRowId = 0\<rparr>"

definition aliceClaims :: JwtPayload where
  "aliceClaims = \<lparr>userId = ''u1'', email = ''alice@example.com'', role = CLIENT\<rparr>"

definition t0 :: nat where
  "t0 = 1700000000000"

definition expiredToken :: string where
  "expiredToken = jwt_sign aliceClaims (refreshSecret cfg0) (refreshExpiry cfg0) 1600000000"

definition forgedToken :: string where
  "forgedToken = jwt_sign aliceClaims ''a-key-the-server-never-had-0123456789'' (refreshExpiry cfg0) 1700000000"

definition wrongKeyAccessToken :: string where
  "wrongKeyAccessToken = jwt_sign aliceClaims (refreshSecret cfg0) (accessExpiry cfg0) (t0 div 1000)"

definition expiredAccessToken :: string where
  "expiredAccessToken = jwt_sign aliceClaims (accessSecret cfg0) (accessExpiry cfg0) 1699990000"

definition bearerRequest :: "string \<Rightarrow> AuthenticatedRequest" where
  "bearerRequest tok = \<lparr>authorization = Some (''Bearer '' @ tok), params = [], body = JsUndefined, user = None\<rparr>"

definition bareRequest :: AuthenticatedRequest where
  "bareRequest = \<lparr>authorization = None, params = [], body = JsUndefined, user = None\<rparr>"

definition ownedRequest :: "JwtPayload \<Rightarrow> (string \<times> string) list \<Rightarrow> JsValue \<Rightarrow> AuthenticatedRequest" where
  "ownedRequest claims ps b = \<lparr>authorization = None, params = ps, body = b, user = Some claims\<rparr>"

definition coachClaims :: JwtPayload where
  "coachClaims = \<lparr>userId = ''u0'', email = ''admin@fitportal.com'', role = ADMIN\<rparr>"

definition bobClaims :: JwtPayload where
  "bobClaims = \<lparr>userId = ''u2'', email = ''bob@example.com'', role = CLIENT\<rparr>"

definition ghostClaims :: JwtPayload where
  "ghostClaims = \<lparr>userId = ''u9'', email = ''ghost@example.com'', role = CLIENT\<rparr>"

definition dbPromoted :: Db where
  "dbPromoted = db0\<lparr>users := [coach, alice\<lparr>user_email := ''alice@newmail.example'', user_role := ADMIN\<rparr>, bob]\<rparr>"

definition R1 :: string where
  "R1 = generateRefreshToken cfg0 t0 aliceClaims"

definition sessionDb :: "nat \<Rightarrow> nat \<Rightarrow> Db" where
  "sessionDb i expiresAt =
     db0\<lparr>refreshTokens := [\<lparr>rt_id = i, rt_token = R1, rt_userId = ''u1'', rt_expiresAt = expiresAt\<rparr>],
         nextRowId := Suc i\<rparr>"

definition R2 :: string where
  "R2 = generateRefreshToken cfg0 (t0 + 5000) aliceClaims"

definition rotatedDb :: Db where
  "rotatedDb =
     db0\<lparr>refreshTokens := [\<lparr>rt_id = 1, rt_token = R2, rt_userId = ''u1'',
                              rt_expiresAt = t0 + 5000 + 604800000\<rparr>],
         nextRowId := 2\<rparr>"

definition aliceSummary :: UserSummary where
  "aliceSummary = \<lparr>sum_id = ''u1'', sum_email = ''alice@example.com'', sum_name = ''Alice'',
                   sum_role = CLIENT\<rparr>"

text \<open>The store's constraint on the token column, as a predicate on the model's state.\<close>

definition tokensUnique :: "Db \<Rightarrow> bool" where
  "tokensUnique db = distinct (map rt_token (refreshTokens db))"

section \<open>The codec round trip\<close>

text \<open>
  Verification accepts exactly what was signed under the same key and has not expired,
  and two signed tokens are the same string only if payload, key, lifetime and clock
  second all agree.
\<close>

lemma getBits_putBits: "getBits (putBits n) = n"
proof (induction n rule: putBits.induct)
  case (1 n)
  show ?case
  proof (cases "n = 0")
    case True
    then show ?thesis by (simp add: putBits.simps)
  next
    case False
    with 1 have ih: "getBits (putBits (n div 2)) = n div 2" by simp
    have "putBits n = (if odd n then CHR ''1'' else CHR ''0'') # putBits (n div 2)"
      using False by (subst putBits.simps) simp
    then show ?thesis using ih by (cases "odd n") auto
  qed
qed

lemma putBits_no_colon: "c \<in> set (putBits n) \<Longrightarrow> c \<noteq> CHR '':''"
proof (induction n rule: putBits.induct)
  case (1 n)
  show ?case
  proof (cases "n = 0")
    case True
    with 1(2) show ?thesis by (simp add: putBits.simps)
  next
    case False
    have "putBits n = (if odd n then CHR ''1'' else CHR ''0'') # putBits (n div 2)"
      using False by (subst putBits.simps) simp
    with 1 False show ?thesis by (auto split: if_splits)
  qed
qed

lemma takeNum_putNum: "takeNum (putNum n @ r) = Some (n, r)"
proof -
  have a: "\<forall>c\<in>set (putBits n). c \<noteq> CHR '':''" using putBits_no_colon by blast
  have "dropWhile (\<lambda>c. c \<noteq> CHR '':'') (putBits n @ CHR '':'' # r) = CHR '':'' # r"
    using a by (simp add: dropWhile_append3)
  moreover have "takeWhile (\<lambda>c. c \<noteq> CHR '':'') (putBits n @ CHR '':'' # r) = putBits n"
    using a by (simp add: takeWhile_tail)
  ultimately show ?thesis by (simp add: takeNum_def putNum_def getBits_putBits)
qed

lemma takeStr_putStr: "takeStr (putStr s @ r) = Some (s, r)"
  by (simp add: takeStr_def putStr_def takeNum_putNum)

lemma takeRole_putRole: "takeRole (putRole x @ r) = Some (x, r)"
  by (cases x) (simp_all add: takeRole_def putRole_def takeStr_putStr)

lemma jwt_decode_sign:
  "jwt_decode (jwt_sign p k e t) = Some (p, t, t + e, hmac k (jwtBody p t (t + e)))"
  by (simp add: jwt_decode_def jwt_sign_def jwtBody_def Let_def
      takeStr_putStr takeRole_putRole takeNum_putNum)

lemma jwt_verify_sign:
  "jwt_verify (jwt_sign p k e t) k' c =
     (if k' \<noteq> k then Inl JsonWebTokenError
      else if c \<ge> t + e then Inl TokenExpiredError
      else Inr p)"
  by (simp add: jwt_verify_def jwt_decode_sign hmac_def)

lemma jwt_sign_nonempty: "jwt_sign p k e t \<noteq> []"
  by (simp add: jwt_sign_def Let_def)

lemma jwt_verify_empty: "jwt_verify [] k c = Inl JsonWebTokenError"
  by (simp add: jwt_verify_def jwt_decode_def takeStr_def takeNum_def)

lemma jwt_sign_inject:
  assumes "jwt_sign p k e t = jwt_sign p' k' e' t'"
  shows "p = p' \<and> k = k' \<and> e = e' \<and> t = t'"
proof -
  have "jwt_decode (jwt_sign p k e t) = jwt_decode (jwt_sign p' k' e' t')"
    using assms by simp
  then show ?thesis by (auto simp: jwt_decode_sign hmac_def)
qed

section \<open>The hasher\<close>

lemma comparePassword_hashPassword:
  "comparePassword pw' (hashPassword salt pw) \<longleftrightarrow> take 72 pw' = take 72 pw"
  by (auto simp: comparePassword_def hashPassword_def bcrypt_compare_def bcrypt_hash_def
      startsWith_def slice_def takeNum_putNum takeStr_putStr)

section \<open>The store\<close>

lemma refreshToken_create_Inl:
  "refreshToken_create db tok uid ex = Inl x \<Longrightarrow> x = PrismaClientKnownRequestError ''P2002''"
  by (auto simp: refreshToken_create_def split: if_splits)


lemma refreshToken_findUnique_None:
  "refreshToken_findUnique db t = None \<longleftrightarrow> (\<forall>r \<in> set (refreshTokens db). rt_token r \<noteq> t)"
  by (auto simp: refreshToken_findUnique_def find_None_iff)

lemma find_distinct_token:
  assumes "distinct (map rt_token rs)" and "find (\<lambda>r. rt_token r = t) rs = Some st"
    and "r \<in> set rs" and "rt_token r = t"
  shows "r = st"
proof -
  have "st \<in> set rs" "rt_token st = t"
    using assms(2) by (auto simp: find_Some_iff)
  then show ?thesis
    using assms(1,3,4) by (auto simp: distinct_map inj_on_def)
qed

lemma tokensUnique_create:
  "tokensUnique db \<Longrightarrow> refreshToken_create db t uid ex = Inr db' \<Longrightarrow> tokensUnique db'"
  by (auto simp: tokensUnique_def refreshToken_create_def refreshToken_findUnique_None
      split: if_splits)

lemma tokensUnique_filter:
  "tokensUnique db \<Longrightarrow> tokensUnique (db\<lparr>refreshTokens := filter P (refreshTokens db)\<rparr>)"
  by (simp add: tokensUnique_def distinct_map_filter)

section \<open>The service, step by step\<close>

text \<open>
  The outcome of \<open>login\<close> and of \<open>refreshAccessToken\<close> on their successful paths, and
  what rotation and logout achieve: once no row holds a token, refresh with it fails.
  Rotation removes the row of the presented token whenever the token it mints is a
  different string, which is the case unless the claims and the clock second are those
  of the presented token.
\<close>

lemma generateRefreshToken_same:
  "generateRefreshToken cfg now c = generateRefreshToken cfg now' c' \<longleftrightarrow>
     c = c' \<and> now div 1000 = now' div 1000"
  by (auto simp: generateRefreshToken_def dest: jwt_sign_inject)

lemma login_success:
  assumes "user_findUnique_email db (toLowerCase rt e) = Some u"
    and "user_active u"
    and "comparePassword pw (user_passwordHash u)"
    and "refreshToken_findUnique db
           (generateRefreshToken cfg now \<lparr>userId = user_id u, email = user_email u, role = user_role u\<rparr>) = None"
  shows "login rt cfg db now e pw rm =
     (Inr \<lparr>login_accessToken = generateAccessToken cfg now
               \<lparr>userId = user_id u, email = user_email u, role = user_role u\<rparr>,
           login_refreshToken = generateRefreshToken cfg now
               \<lparr>userId = user_id u, email = user_email u, role = user_role u\<rparr>,
           login_user = \<lparr>sum_id = user_id u, sum_email = user_email u,
                          sum_name = user_name u, sum_role = user_role u\<rparr>\<rparr>,
      db\<lparr>refreshTokens := refreshTokens db @
            [\<lparr>rt_id = nextRowId db,
              rt_token = generateRefreshToken cfg now
                \<lparr>userId = user_id u, email = user_email u, role = user_role u\<rparr>,
              rt_userId = user_id u,
              rt_expiresAt = addDays rt now (if rm then 30 else 7)\<rparr>],
          nextRowId := Suc (nextRowId db)\<rparr>)"
  using assms by (simp add: login_def Let_def refreshToken_create_def)

lemma login_token_stored:
  assumes "user_findUnique_email db (toLowerCase rt e) = Some u"
    and "user_active u"
    and "comparePassword pw (user_passwordHash u)"
    and "refreshToken_findUnique db
           (generateRefreshToken cfg now \<lparr>userId = user_id u, email = user_email u, role = user_role u\<rparr>) \<noteq> None"
  shows "login rt cfg db now e pw rm = (Inl (PrismaClientKnownRequestError ''P2002''), db)"
  using assms by (simp add: login_def Let_def refreshToken_create_def)

lemma refreshAccessToken_success:
  assumes "jwt_verify t (refreshSecret cfg) (now div 1000) = Inr p"
    and "refreshToken_findUnique db t = Some st"
    and "\<not> rt_expiresAt st < now"
    and "user_findUnique_id db (rt_userId st) = Some u"
    and "user_active u"
    and "refreshToken_findUnique (refreshToken_delete db (rt_id st))
           (generateRefreshToken cfg now \<lparr>userId = user_id u, email = user_email u, role = user_role u\<rparr>) = None"
  shows "refreshAccessToken cfg db now t =
     (Inr \<lparr>accessToken = generateAccessToken cfg now
               \<lparr>userId = user_id u, email = user_email u, role = user_role u\<rparr>,
           refreshToken = generateRefreshToken cfg now
               \<lparr>userId = user_id u, email = user_email u, role = user_role u\<rparr>\<rparr>,
      db\<lparr>refreshTokens := filter (\<lambda>r. rt_id r \<noteq> rt_id st) (refreshTokens db) @
            [\<lparr>rt_id = nextRowId db,
              rt_token = generateRefreshToken cfg now
                \<lparr>userId = user_id u, email = user_email u, role = user_role u\<rparr>,
              rt_userId = user_id u,
              rt_expiresAt = now + 604800000\<rparr>],
          nextRowId := Suc (nextRowId db)\<rparr>)"
  using assms by (simp add: refreshAccessToken_def Let_def refreshToken_create_def refreshToken_delete_def)

lemma refreshAccessToken_no_row:
  assumes "refreshToken_findUnique db t = None"
  shows "refreshAccessToken cfg db now t = (Inl (UnauthorizedError ''Invalid refresh token''), db)
       \<or> refreshAccessToken cfg db now t = (Inl (UnauthorizedError ''Refresh token not found''), db)"
  using assms by (simp add: refreshAccessToken_def split: sum.splits)

lemma logout_then_refresh_fails:
  "refreshAccessToken cfg (logout db t) now t
     = (Inl (UnauthorizedError ''Invalid refresh token''), logout db t)
   \<or> refreshAccessToken cfg (logout db t) now t
     = (Inl (UnauthorizedError ''Refresh token not found''), logout db t)"
proof -
  have "refreshToken_findUnique (logout db t) t = None"
    by (simp add: refreshToken_findUnique_None logout_def refreshToken_deleteMany_token_def)
  then show ?thesis by (rule refreshAccessToken_no_row)
qed

lemma refresh_rotation_single_use:
  assumes "tokensUnique db"
    and "refreshAccessToken cfg db now t = (Inr res, db')"
    and "refreshToken res \<noteq> t"
  shows "refreshAccessToken cfg db' now' t
           = (Inl (UnauthorizedError ''Invalid refresh token''), db')
       \<or> refreshAccessToken cfg db' now' t
           = (Inl (UnauthorizedError ''Refresh token not found''), db')"
proof -
  from assms(2) obtain st row where
    st: "refreshToken_findUnique db t = Some st"
    and r: "rt_token row = refreshToken res"
    and d: "refreshTokens db' = filter (\<lambda>r. rt_id r \<noteq> rt_id st) (refreshTokens db) @ [row]"
    by (fastforce simp: refreshAccessToken_def Let_def refreshToken_create_def
        refreshToken_delete_def split: sum.splits option.splits if_splits)
  have "rt_token x \<noteq> t" if "x \<in> set (refreshTokens db')" for x
  proof
    assume e: "rt_token x = t"
    with that d r assms(3) have "x \<in> set (refreshTokens db)" "rt_id x \<noteq> rt_id st"
      by auto
    moreover have "x = st"
      using find_distinct_token [OF assms(1) [unfolded tokensUnique_def]
          st [unfolded refreshToken_findUnique_def] \<open>x \<in> set (refreshTokens db)\<close> e] .
    ultimately show False by simp
  qed
  then have "refreshToken_findUnique db' t = None"
    by (simp add: refreshToken_findUnique_None)
  then show ?thesis by (rule refreshAccessToken_no_row)
qed

lemma tokensUnique_login:
  "tokensUnique db \<Longrightarrow> tokensUnique (snd (login rt cfg db now e pw rm))"
  by (auto simp: login_def Let_def split: option.splits sum.splits dest: tokensUnique_create)

lemma tokensUnique_refresh:
  "tokensUnique db \<Longrightarrow> tokensUnique (snd (refreshAccessToken cfg db now t))"
  by (auto simp: refreshAccessToken_def Let_def refreshToken_delete_def
      split: option.splits sum.splits
      dest: tokensUnique_create [OF tokensUnique_filter] intro: tokensUnique_filter)

lemma tokensUnique_logout:
  "tokensUnique db \<Longrightarrow> tokensUnique (logout db t)"
  "tokensUnique db \<Longrightarrow> tokensUnique (logoutAll db uid)"
  by (simp_all add: logout_def logoutAll_def refreshToken_deleteMany_token_def
      refreshToken_deleteMany_userId_def tokensUnique_filter)

section \<open>The sample data, evaluated\<close>

lemmas ev = login_def refreshAccessToken_def cfg0_def db0_def alice_def bob_def coach_def aliceClaims_def t0_def
  user_findUnique_email_def user_findUnique_id_def sampleRuntime_def asciiToLowerCase_def lowerChar_def
  comparePassword_def hashPassword_def bcrypt_hash_def bcrypt_compare_def SALT_ROUNDS_def
  startsWith_def slice_def putNum_def putStr_def putRole_def takeNum_def takeStr_def takeRole_def
  putBits.simps jwtBody_def hmac_def jwt_sign_def jwt_decode_def jwt_verify_def
  generateAccessToken_def generateRefreshToken_def
  refreshToken_create_def refreshToken_findUnique_def refreshToken_delete_def
  UnauthorizedError_def Let_def

lemma sample_users:
  "user_findUnique_email db0 (toLowerCase sampleRuntime ''Alice@Example.com'') = Some alice"
  "user_findUnique_email db0 (toLowerCase sampleRuntime ''alice@example.com'') = Some alice"
  "user_findUnique_id db0 ''u1'' = Some alice"
  "user_active alice"
  "comparePassword ''Client123!'' (user_passwordHash alice)"
  "\<not> comparePassword ''Client12345'' (user_passwordHash alice)"
  by (simp_all add: user_findUnique_email_def user_findUnique_id_def db0_def coach_def alice_def
      sampleRuntime_def asciiToLowerCase_def lowerChar_def comparePassword_hashPassword)

lemma alice_fields:
  "\<lparr>userId = user_id alice, email = user_email alice, role = user_role alice\<rparr> = aliceClaims"
  "\<lparr>sum_id = user_id alice, sum_email = user_email alice, sum_name = user_name alice,
     sum_role = user_role alice\<rparr> = aliceSummary"
  by (simp_all add: alice_def aliceClaims_def aliceSummary_def)

lemma sessionDb_users:
  "user_findUnique_email (sessionDb i ex) e = user_findUnique_email db0 e"
  "user_findUnique_id (sessionDb i ex) uid = user_findUnique_id db0 uid"
  by (simp_all add: sessionDb_def user_findUnique_email_def user_findUnique_id_def)

lemma sessionDb_row:
  "refreshToken_findUnique (sessionDb i ex) R1
     = Some \<lparr>rt_id = i, rt_token = R1, rt_userId = ''u1'', rt_expiresAt = ex\<rparr>"
  by (simp add: sessionDb_def refreshToken_findUnique_def)

lemma R1_verifies:
  "n < 1700604800 \<Longrightarrow> jwt_verify R1 (refreshSecret cfg0) n = Inr aliceClaims"
  by (simp add: R1_def generateRefreshToken_def jwt_verify_sign cfg0_def t0_def)

lemma R1_again:
  "now div 1000 = 1700000000 \<Longrightarrow> generateRefreshToken cfg0 now aliceClaims = R1"
  by (simp add: R1_def generateRefreshToken_def t0_def)

lemma login_db0:
  "login sampleRuntime cfg0 db0 t0 ''Alice@Example.com'' ''Client123!'' False =
     (Inr \<lparr>login_accessToken = generateAccessToken cfg0 t0 aliceClaims,
           login_refreshToken = R1, login_user = aliceSummary\<rparr>,
      sessionDb 0 (t0 + 604800000))"
proof -
  have "refreshToken_findUnique db0
          (generateRefreshToken cfg0 t0
            \<lparr>userId = user_id alice, email = user_email alice, role = user_role alice\<rparr>) = None"
    by (simp add: refreshToken_findUnique_def db0_def)
  from login_success [OF sample_users(1) sample_users(4) sample_users(5) this, of False,
      unfolded alice_fields]
  show ?thesis
    by (simp add: R1_def sessionDb_def db0_def alice_def sampleRuntime_def)
qed

lemma refresh_sessionDb:
  assumes "now div 1000 = 1700000000" and "now \<le> ex"
  shows "refreshAccessToken cfg0 (sessionDb i ex) now R1 =
     (Inr \<lparr>accessToken = generateAccessToken cfg0 now aliceClaims, refreshToken = R1\<rparr>,
      sessionDb (Suc i) (now + 604800000))"
proof -
  let ?st = "\<lparr>rt_id = i, rt_token = R1, rt_userId = ''u1'', rt_expiresAt = ex\<rparr>"
  have v: "jwt_verify R1 (refreshSecret cfg0) (now div 1000) = Inr aliceClaims"
    using assms(1) by (simp add: R1_verifies)
  have e: "\<not> rt_expiresAt ?st < now" using assms(2) by simp
  have u: "user_findUnique_id (sessionDb i ex) (rt_userId ?st) = Some alice"
    by (simp add: sessionDb_users sample_users)
  have n: "refreshToken_findUnique (refreshToken_delete (sessionDb i ex) (rt_id ?st))
           (generateRefreshToken cfg0 now
              \<lparr>userId = user_id alice, email = user_email alice, role = user_role alice\<rparr>) = None"
    by (simp add: refreshToken_findUnique_def refreshToken_delete_def sessionDb_def)
  from refreshAccessToken_success [OF v sessionDb_row e u sample_users(4) n,
      unfolded alice_fields R1_again [OF assms(1)]]
  show ?thesis
    by (simp add: sessionDb_def alice_def)
qed

lemma rotation_later_second:
  "refreshAccessToken cfg0 (sessionDb 0 (t0 + 604800000)) (t0 + 5000) R1 =
     (Inr \<lparr>accessToken = generateAccessToken cfg0 (t0 + 5000) aliceClaims, refreshToken = R2\<rparr>,
      rotatedDb)
   \<and> R2 \<noteq> R1
   \<and> refreshAccessToken cfg0 rotatedDb (t0 + 6000) R1 =
     (Inl (UnauthorizedError ''Refresh token not found''), rotatedDb)"
proof -
  let ?st = "\<lparr>rt_id = 0, rt_token = R1, rt_userId = ''u1'', rt_expiresAt = t0 + 604800000\<rparr>"
  have ne: "R2 \<noteq> R1"
    by (simp add: R1_def R2_def generateRefreshToken_same t0_def)
  have v: "jwt_verify R1 (refreshSecret cfg0) n = Inr aliceClaims" if "n < 1700604800" for n
    using that by (rule R1_verifies)
  have e: "\<not> rt_expiresAt ?st < t0 + 5000" by simp
  have u: "user_findUnique_id (sessionDb 0 (t0 + 604800000)) (rt_userId ?st) = Some alice"
    by (simp add: sessionDb_users sample_users)
  have n: "refreshToken_findUnique (refreshToken_delete (sessionDb 0 (t0 + 604800000)) (rt_id ?st))
           (generateRefreshToken cfg0 (t0 + 5000)
              \<lparr>userId = user_id alice, email = user_email alice, role = user_role alice\<rparr>) = None"
    by (simp add: refreshToken_findUnique_def refreshToken_delete_def sessionDb_def)
  have a: "refreshAccessToken cfg0 (sessionDb 0 (t0 + 604800000)) (t0 + 5000) R1 =
     (Inr \<lparr>accessToken = generateAccessToken cfg0 (t0 + 5000) aliceClaims, refreshToken = R2\<rparr>,
      rotatedDb)"
    using refreshAccessToken_success [OF v sessionDb_row e u sample_users(4) n,
        unfolded alice_fields R2_def [symmetric]]
    by (simp add: sessionDb_def rotatedDb_def alice_def t0_def)
  have "refreshToken_findUnique rotatedDb R1 = None"
    using ne by (simp add: refreshToken_findUnique_def rotatedDb_def)
  then have b: "refreshAccessToken cfg0 rotatedDb (t0 + 6000) R1 =
     (Inl (UnauthorizedError ''Refresh token not found''), rotatedDb)"
    using v [of "(t0 + 6000) div 1000"] by (simp add: refreshAccessToken_def t0_def)
  show ?thesis using a ne b by simp
qed

lemma bearerToken_Bearer: "authorization req = Some (''Bearer '' @ tok) \<Longrightarrow> bearerToken req = Some tok"
  by (simp add: bearerToken_def startsWith_def slice_def)

section \<open>Login: the order of the checks\<close>

text \<open>
  C1, as stated (an incorrect secret against an inactive account fails with
  \<open>InvalidCredentials\<close>; \<open>AccountDisabled\<close> only when the secret verifies), does not
  hold: \<open>login\<close> tests the active flag before it compares the secret. Bob's account is
  deactivated; a login with a secret that does not verify is answered
  "Account is deactivated", not "Invalid email or password".
\<close>

theorem login_inactive_wrong_secret:
  "user_findUnique_email db0 (toLowerCase sampleRuntime ''bob@example.com'') = Some bob
   \<and> \<not> user_active bob
   \<and> \<not> comparePassword ''not-the-secret'' (user_passwordHash bob)
   \<and> fst (login sampleRuntime cfg0 db0 t0 ''bob@example.com'' ''not-the-secret'' False)
       = Inl (UnauthorizedError ''Account is deactivated'')
   \<and> fst (login sampleRuntime cfg0 db0 t0 ''bob@example.com'' ''not-the-secret'' False)
       \<noteq> Inl (UnauthorizedError ''Invalid email or password'')"
  by (simp add: ev)

text \<open>
  C1, amended: for every login call where a principal with the case-folded e-mail exists,
  the active flag is checked before the secret is verified. On an inactive account the
  call fails with \<open>AccountDisabled\<close> ("Account is deactivated") whatever secret is
  presented, and leaves the store as it was; \<open>InvalidCredentials\<close>
  ("Invalid email or password") is the outcome exactly when the account is active and
  the secret does not verify.
\<close>

theorem login_checks_active_first:
  assumes "user_findUnique_email db (toLowerCase rt e) = Some u"
  shows "(\<not> user_active u \<longrightarrow>
            login rt cfg db now e pw rm = (Inl (UnauthorizedError ''Account is deactivated''), db))
       \<and> (fst (login rt cfg db now e pw rm) = Inl (UnauthorizedError ''Invalid email or password'')
            \<longleftrightarrow> user_active u \<and> \<not> comparePassword pw (user_passwordHash u))"
  using assms
  by (auto simp: login_def Let_def UnauthorizedError_def split: sum.splits
      dest: refreshToken_create_Inl)

theorem login_checks_active_first_witness:
  "user_findUnique_email db0 (toLowerCase sampleRuntime ''bob@example.com'') = Some bob
   \<and> \<not> user_active bob
   \<and> login sampleRuntime cfg0 db0 t0 ''bob@example.com'' ''Client456!'' False
       = (Inl (UnauthorizedError ''Account is deactivated''), db0)
   \<and> user_findUnique_email db0 (toLowerCase sampleRuntime ''Alice@Example.com'') = Some alice
   \<and> user_active alice \<and> \<not> comparePassword ''not-the-secret'' (user_passwordHash alice)
   \<and> fst (login sampleRuntime cfg0 db0 t0 ''Alice@Example.com'' ''not-the-secret'' True)
       = Inl (UnauthorizedError ''Invalid email or password'')"
proof -
  have b: "user_findUnique_email db0 (toLowerCase sampleRuntime ''bob@example.com'') = Some bob"
    by (simp add: ev)
  have a: "user_findUnique_email db0 (toLowerCase sampleRuntime ''Alice@Example.com'') = Some alice"
    by (simp add: ev)
  have nb: "\<not> user_active bob" by (simp add: bob_def)
  have na: "user_active alice \<and> \<not> comparePassword ''not-the-secret'' (user_passwordHash alice)"
    by (simp add: ev)
  show ?thesis
    using login_checks_active_first [OF b, of cfg0 t0 "''Client456!''" False]
      login_checks_active_first [OF a, of cfg0 t0 "''not-the-secret''" True] a b na nb
    by simp
qed

section \<open>Refresh: rotation\<close>

text \<open>
  C2 asks that refresh tokens be single-use: after a successful \<open>refresh(t)\<close> the row of
  \<open>t\<close> is deleted and replaced, so that a later \<open>refresh(t)\<close> fails. The code rotates
  the row, as its comment says, but the string it stores in the new row is minted from
  the claims, the refresh key, the lifetime and the clock in whole seconds only. Within
  the clock second in which \<open>t\<close> was issued it mints \<open>t\<close> again: Alice logs in at
  \<open>t0\<close> and receives \<open>R1\<close>; 400 ms later \<open>refresh(R1)\<close> succeeds and returns \<open>R1\<close>,
  stored in a new row; 400 ms after that \<open>refresh(R1)\<close> succeeds once more.
\<close>

theorem refresh_same_second_reuse:
  "login sampleRuntime cfg0 db0 t0 ''Alice@Example.com'' ''Client123!'' False =
     (Inr \<lparr>login_accessToken = generateAccessToken cfg0 t0 aliceClaims,
           login_refreshToken = R1, login_user = aliceSummary\<rparr>,
      sessionDb 0 (t0 + 604800000))
   \<and> refreshAccessToken cfg0 (sessionDb 0 (t0 + 604800000)) (t0 + 400) R1 =
     (Inr \<lparr>accessToken = generateAccessToken cfg0 (t0 + 400) aliceClaims, refreshToken = R1\<rparr>,
      sessionDb 1 (t0 + 400 + 604800000))
   \<and> refreshAccessToken cfg0 (sessionDb 1 (t0 + 400 + 604800000)) (t0 + 800) R1 =
     (Inr \<lparr>accessToken = generateAccessToken cfg0 (t0 + 800) aliceClaims, refreshToken = R1\<rparr>,
      sessionDb 2 (t0 + 800 + 604800000))"
proof -
  have a: "(t0 + 400) div 1000 = 1700000000" "t0 + 400 \<le> t0 + 604800000"
    and b: "(t0 + 800) div 1000 = 1700000000" "t0 + 800 \<le> t0 + 400 + 604800000"
    by (simp_all add: t0_def)
  show ?thesis
    using login_db0 refresh_sessionDb [OF a, of 0] refresh_sessionDb [OF b, of 1]
    by (simp add: numeral_2_eq_2)
qed

section \<open>Refresh: failures of the token codec\<close>

text \<open>
  C3, as stated (in refresh a token with an invalid signature fails \<open>InvalidToken\<close>, one
  with a valid signature and a passed expiry fails \<open>TokenExpired\<close>, and the caller can
  tell the two apart), does not hold: \<open>refreshAccessToken\<close> catches whatever
  \<open>jwt.verify\<close> throws and raises one and the same error. A token signed with the refresh
  key that expired long ago and a token signed with a key the server never had are both
  answered "Invalid refresh token".
\<close>

theorem refresh_expired_same_as_forged:
  "jwt_verify expiredToken (refreshSecret cfg0) (t0 div 1000) = Inl TokenExpiredError
   \<and> jwt_verify forgedToken (refreshSecret cfg0) (t0 div 1000) = Inl JsonWebTokenError
   \<and> fst (refreshAccessToken cfg0 db0 t0 expiredToken) = Inl (UnauthorizedError ''Invalid refresh token'')
   \<and> fst (refreshAccessToken cfg0 db0 t0 forgedToken) = Inl (UnauthorizedError ''Invalid refresh token'')"
  by (simp add: expiredToken_def forgedToken_def jwt_verify_sign refreshAccessToken_def cfg0_def t0_def)

text \<open>
  C3, amended: in refresh, token-codec failures are not distinguishable by kind. Whatever
  the codec reports, the call fails with the same error, "Invalid refresh token", and
  the store is left as it was: so it is for a token signed under another key than the
  refresh key, and so it is for a token signed under the refresh key whose embedded
  expiry has passed.
\<close>

theorem refresh_codec_failures_collapse:
  "(\<forall>e. jwt_verify tok (refreshSecret cfg) (now div 1000) = Inl e \<longrightarrow>
        refreshAccessToken cfg db now tok = (Inl (UnauthorizedError ''Invalid refresh token''), db))
   \<and> (k \<noteq> refreshSecret cfg \<longrightarrow>
        refreshAccessToken cfg db now (jwt_sign p k lifetime issued)
          = (Inl (UnauthorizedError ''Invalid refresh token''), db))
   \<and> (issued + lifetime \<le> now div 1000 \<longrightarrow>
        refreshAccessToken cfg db now (jwt_sign p (refreshSecret cfg) lifetime issued)
          = (Inl (UnauthorizedError ''Invalid refresh token''), db))"
  by (simp add: refreshAccessToken_def jwt_verify_sign)

theorem refresh_codec_failures_collapse_witness:
  "jwt_verify expiredToken (refreshSecret cfg0) (t0 div 1000) = Inl TokenExpiredError
   \<and> refreshAccessToken cfg0 db0 t0 expiredToken = (Inl (UnauthorizedError ''Invalid refresh token''), db0)
   \<and> jwt_verify forgedToken (refreshSecret cfg0) (t0 div 1000) = Inl JsonWebTokenError
   \<and> refreshAccessToken cfg0 db0 t0 forgedToken = (Inl (UnauthorizedError ''Invalid refresh token''), db0)"
proof -
  have e: "jwt_verify expiredToken (refreshSecret cfg0) (t0 div 1000) = Inl TokenExpiredError"
    by (simp add: expiredToken_def jwt_verify_sign cfg0_def t0_def)
  have f: "jwt_verify forgedToken (refreshSecret cfg0) (t0 div 1000) = Inl JsonWebTokenError"
    by (simp add: forgedToken_def jwt_verify_sign cfg0_def t0_def)
  have k: "''a-key-the-server-never-had-0123456789'' \<noteq> refreshSecret cfg0"
    by (simp add: cfg0_def)
  have x: "1600000000 + refreshExpiry cfg0 \<le> t0 div 1000"
    by (simp add: cfg0_def t0_def)
  show ?thesis
    using refresh_codec_failures_collapse
        [of expiredToken cfg0 t0 db0 "''a-key-the-server-never-had-0123456789''" aliceClaims
          "refreshExpiry cfg0" 1700000000]
      refresh_codec_failures_collapse
        [of forgedToken cfg0 t0 db0 "refreshSecret cfg0" aliceClaims "refreshExpiry cfg0" 1600000000]
      e f k x
    by (simp add: forgedToken_def expiredToken_def)
qed

section \<open>Password change\<close>



section \<open>Login: the session it creates\<close>

text \<open>
  C5 asks that every login with a correct secret on an active account create exactly
  one new Session row (expiring 30 days from now with the extended-lifetime flag, 7 days
  otherwise) and return tokens that embed the principal's attributes, with a summary
  that has no hash; \<open>login_success\<close> above shows that this is what happens whenever the
  minted refresh token is not yet in the store. The code falls short when it is: a second
  login of Alice within the clock second of her first one mints the refresh token that
  the first one stored, the store rejects the insert, and \<open>login\<close> ends with the
  store's error and without a new row.
\<close>

theorem login_same_second_rejected:
  "user_findUnique_email (sessionDb 0 (t0 + 604800000)) (toLowerCase sampleRuntime ''alice@example.com'') = Some alice
   \<and> user_active alice
   \<and> comparePassword ''Client123!'' (user_passwordHash alice)
   \<and> login sampleRuntime cfg0 (sessionDb 0 (t0 + 604800000)) (t0 + 600) ''alice@example.com'' ''Client123!'' True
       = (Inl (PrismaClientKnownRequestError ''P2002''), sessionDb 0 (t0 + 604800000))"
proof -
  have g: "generateRefreshToken cfg0 (t0 + 600)
            \<lparr>userId = user_id alice, email = user_email alice, role = user_role alice\<rparr> = R1"
    unfolding alice_fields by (rule R1_again) (simp add: t0_def)
  have u: "user_findUnique_email (sessionDb 0 (t0 + 604800000)) (toLowerCase sampleRuntime ''alice@example.com'')
            = Some alice"
    by (simp add: sessionDb_users sample_users)
  have f: "refreshToken_findUnique (sessionDb 0 (t0 + 604800000))
            (generateRefreshToken cfg0 (t0 + 600)
              \<lparr>userId = user_id alice, email = user_email alice, role = user_role alice\<rparr>) \<noteq> None"
    by (simp add: g sessionDb_row)
  show ?thesis
    using login_token_stored [OF u sample_users(4) sample_users(5) f, of True] u sample_users
    by simp
qed

section \<open>The access guard: authenticate\<close>

text \<open>
  C6: \<open>authenticate\<close> fails \<open>Unauthenticated\<close> ("No token provided") for every request
  without a bearer token in the Authorization header (no header, a header that does not
  start with "Bearer ", or nothing after it); fails \<open>Unauthenticated\<close> of the
  \<open>InvalidToken\<close> kind ("Invalid token") for every access token whose signature does not
  verify under the access-token key; and fails \<open>Unauthenticated\<close> of the \<open>TokenExpired\<close>
  kind ("Token expired") for every access token, correctly signed, whose expiry has
  passed. The three errors are pairwise different.
\<close>

theorem authenticate_failure_modes:
  "(authorization req = None \<or> authorization req = Some ''Bearer ''
      \<or> (\<exists>h. authorization req = Some h \<and> \<not> startsWith h ''Bearer '')
     \<longrightarrow> authenticate cfg db now req = Inl (UnauthorizedError ''No token provided''))
   \<and> (\<forall>tok. authorization req = Some (''Bearer '' @ tok) \<and> tok \<noteq> []
         \<and> jwt_verify tok (accessSecret cfg) (now div 1000) = Inl JsonWebTokenError
        \<longrightarrow> authenticate cfg db now req = Inl (UnauthorizedError ''Invalid token''))
   \<and> (\<forall>p k lifetime issued.
         authorization req = Some (''Bearer '' @ jwt_sign p k lifetime issued)
         \<and> k \<noteq> accessSecret cfg
        \<longrightarrow> authenticate cfg db now req = Inl (UnauthorizedError ''Invalid token''))
   \<and> (\<forall>tok. authorization req = Some (''Bearer '' @ tok)
         \<and> jwt_verify tok (accessSecret cfg) (now div 1000) = Inl TokenExpiredError
        \<longrightarrow> authenticate cfg db now req = Inl (UnauthorizedError ''Token expired''))
   \<and> (\<forall>p lifetime issued.
         authorization req = Some (''Bearer '' @ jwt_sign p (accessSecret cfg) lifetime issued)
         \<and> issued + lifetime \<le> now div 1000
        \<longrightarrow> authenticate cfg db now req = Inl (UnauthorizedError ''Token expired''))
   \<and> UnauthorizedError ''No token provided'' \<noteq> UnauthorizedError ''Invalid token''
   \<and> UnauthorizedError ''No token provided'' \<noteq> UnauthorizedError ''Token expired''
   \<and> UnauthorizedError ''Invalid token'' \<noteq> UnauthorizedError ''Token expired''"
proof -
  have a: "authenticate cfg db now req = Inl (UnauthorizedError ''No token provided'')"
    if "authorization req = None \<or> authorization req = Some ''Bearer ''
      \<or> (\<exists>h. authorization req = Some h \<and> \<not> startsWith h ''Bearer '')"
    using that by (auto simp: authenticate_def bearerToken_def startsWith_def slice_def)
  have b: "authenticate cfg db now req = Inl (UnauthorizedError ''Invalid token'')"
    if "authorization req = Some (''Bearer '' @ tok)" "tok \<noteq> []"
      "jwt_verify tok (accessSecret cfg) (now div 1000) = Inl JsonWebTokenError" for tok
    using that by (simp add: authenticate_def bearerToken_Bearer)
  have c: "authenticate cfg db now req = Inl (UnauthorizedError ''Token expired'')"
    if "authorization req = Some (''Bearer '' @ tok)"
      "jwt_verify tok (accessSecret cfg) (now div 1000) = Inl TokenExpiredError" for tok
  proof -
    have "tok \<noteq> []" using that(2) by (auto simp: jwt_verify_empty)
    then show ?thesis using that by (simp add: authenticate_def bearerToken_Bearer)
  qed
  have b': "authenticate cfg db now req = Inl (UnauthorizedError ''Invalid token'')"
    if "authorization req = Some (''Bearer '' @ jwt_sign p k lifetime issued)"
      "k \<noteq> accessSecret cfg" for p k lifetime issued
    using b [OF that(1) jwt_sign_nonempty] that(2) by (simp add: jwt_verify_sign)
  have c': "authenticate cfg db now req = Inl (UnauthorizedError ''Token expired'')"
    if "authorization req = Some (''Bearer '' @ jwt_sign p (accessSecret cfg) lifetime issued)"
      "issued + lifetime \<le> now div 1000" for p lifetime issued
    using c [OF that(1)] that(2) by (simp add: jwt_verify_sign)
  show ?thesis
    using a b c b' c' by (simp add: UnauthorizedError_def)
qed

theorem authenticate_failure_modes_witness:
  "authenticate cfg0 db0 t0 bareRequest = Inl (UnauthorizedError ''No token provided'')
   \<and> authenticate cfg0 db0 t0 (bearerRequest wrongKeyAccessToken) = Inl (UnauthorizedError ''Invalid token'')
   \<and> authenticate cfg0 db0 t0 (bearerRequest expiredAccessToken) = Inl (UnauthorizedError ''Token expired'')"
proof -
  have w: "jwt_verify wrongKeyAccessToken (accessSecret cfg0) (t0 div 1000) = Inl JsonWebTokenError"
    by (simp add: wrongKeyAccessToken_def jwt_verify_sign cfg0_def)
  have e: "jwt_verify expiredAccessToken (accessSecret cfg0) (t0 div 1000) = Inl TokenExpiredError"
    by (simp add: expiredAccessToken_def jwt_verify_sign cfg0_def t0_def)
  have n: "wrongKeyAccessToken \<noteq> []"
    by (simp add: wrongKeyAccessToken_def jwt_sign_nonempty)
  show ?thesis
    using authenticate_failure_modes [of bareRequest cfg0 db0 t0]
      authenticate_failure_modes [of "bearerRequest wrongKeyAccessToken" cfg0 db0 t0]
      authenticate_failure_modes [of "bearerRequest expiredAccessToken" cfg0 db0 t0]
      w e n
    by (simp add: bareRequest_def bearerRequest_def)
qed

text \<open>
  C7: for every request carrying a validly signed, unexpired access token,
  \<open>authenticate\<close> looks the principal up by the id embedded in the token and fails
  \<open>Unauthenticated\<close> ("User not found or inactive") whenever that principal is absent
  from the store or its active flag is false; the request proceeds, with the token's
  claims attached, only when the principal exists and is active.
\<close>

theorem authenticate_refetches_principal:
  assumes "authorization req = Some (''Bearer '' @ tok)"
    and "jwt_verify tok (accessSecret cfg) (now div 1000) = Inr p"
  shows "(user_findUnique_id db (userId p) = None
            \<longrightarrow> authenticate cfg db now req = Inl (UnauthorizedError ''User not found or inactive''))
       \<and> (\<forall>u. user_findUnique_id db (userId p) = Some u \<and> \<not> user_active u
            \<longrightarrow> authenticate cfg db now req = Inl (UnauthorizedError ''User not found or inactive''))
       \<and> (\<forall>u. user_findUnique_id db (userId p) = Some u \<and> user_active u
            \<longrightarrow> authenticate cfg db now req = Inr (req\<lparr>user := Some p\<rparr>))
       \<and> (\<forall>r. authenticate cfg db now req = Inr r
            \<longrightarrow> (\<exists>u. user_findUnique_id db (userId p) = Some u \<and> user_active u))"
proof -
  have "tok \<noteq> []" using assms(2) by (auto simp: jwt_verify_empty)
  then show ?thesis
    using assms by (auto simp: authenticate_def bearerToken_Bearer split: option.splits)
qed

theorem authenticate_refetches_principal_witness:
  "authenticate cfg0 db0 (t0 + 60000) (bearerRequest (generateAccessToken cfg0 t0 ghostClaims))
     = Inl (UnauthorizedError ''User not found or inactive'')
   \<and> authenticate cfg0 db0 (t0 + 60000) (bearerRequest (generateAccessToken cfg0 t0 bobClaims))
     = Inl (UnauthorizedError ''User not found or inactive'')
   \<and> authenticate cfg0 db0 (t0 + 60000) (bearerRequest (generateAccessToken cfg0 t0 aliceClaims))
     = Inr ((bearerRequest (generateAccessToken cfg0 t0 aliceClaims))\<lparr>user := Some aliceClaims\<rparr>)"
proof -
  have v: "jwt_verify (generateAccessToken cfg0 t0 c) (accessSecret cfg0) ((t0 + 60000) div 1000) = Inr c" for c
    by (simp add: generateAccessToken_def jwt_verify_sign cfg0_def t0_def)
  have h: "authorization (bearerRequest tok) = Some (''Bearer '' @ tok)" for tok
    by (simp add: bearerRequest_def)
  have g: "user_findUnique_id db0 (userId ghostClaims) = None"
    by (simp add: user_findUnique_id_def db0_def ghostClaims_def coach_def alice_def bob_def)
  have b: "user_findUnique_id db0 (userId bobClaims) = Some bob \<and> \<not> user_active bob"
    by (simp add: user_findUnique_id_def db0_def bobClaims_def coach_def alice_def bob_def)
  have a: "user_findUnique_id db0 (userId aliceClaims) = Some alice \<and> user_active alice"
    by (simp add: user_findUnique_id_def db0_def aliceClaims_def coach_def alice_def bob_def)
  show ?thesis
    using authenticate_refetches_principal [OF h v [of ghostClaims], of db0]
      authenticate_refetches_principal [OF h v [of bobClaims], of db0]
      authenticate_refetches_principal [OF h v [of aliceClaims], of db0] g b a
    by simp
qed

section \<open>The access guard: ownership\<close>

text \<open>
  C8: for every authenticated request the ownership check passes when the principal's
  role is \<open>ADMIN\<close>, whatever owner id the request names. For a \<open>CLIENT\<close> it fails
  \<open>Forbidden\<close> whenever the resource owner id found in the request differs from the
  principal's own id. The owner id found in the request is the path parameter when that
  is present and not empty, and the body field otherwise.
\<close>

theorem requireOwnership_admin_and_mismatch:
  assumes "user req = Some u"
  shows "(role u = ADMIN \<longrightarrow> requireOwnership rt paramName req = Inr req)
       \<and> (\<forall>v. role u = CLIENT \<and> map_of (params req) paramName = Some v \<and> v \<noteq> [] \<and> v \<noteq> userId u
            \<longrightarrow> requireOwnership rt paramName req = Inl (ForbiddenError ''Cannot access another user's data''))
       \<and> (\<forall>v. role u = CLIENT
              \<and> (map_of (params req) paramName = None \<or> map_of (params req) paramName = Some [])
              \<and> getBodyField rt req paramName = v \<and> truthy v \<and> v \<noteq> JsStr (userId u)
            \<longrightarrow> requireOwnership rt paramName req = Inl (ForbiddenError ''Cannot access another user's data''))"
  using assms
  by (auto simp: requireOwnership_def resourceClientId_def getParam_def inherited_def
      split: option.splits if_splits)

theorem requireOwnership_admin_and_mismatch_witness:
  "requireOwnership sampleRuntime ''clientId'' (ownedRequest coachClaims [(''clientId'', ''u1'')] JsUndefined)
     = Inr (ownedRequest coachClaims [(''clientId'', ''u1'')] JsUndefined)
   \<and> requireOwnership sampleRuntime ''clientId'' (ownedRequest aliceClaims [(''clientId'', ''u2'')] JsUndefined)
     = Inl (ForbiddenError ''Cannot access another user's data'')
   \<and> requireOwnership sampleRuntime ''clientId'' (ownedRequest aliceClaims [] (JsObj [(''clientId'', JsStr ''u2'')]))
     = Inl (ForbiddenError ''Cannot access another user's data'')"
  using requireOwnership_admin_and_mismatch
      [of "ownedRequest coachClaims [(''clientId'', ''u1'')] JsUndefined" coachClaims
        sampleRuntime "''clientId''"]
    requireOwnership_admin_and_mismatch
      [of "ownedRequest aliceClaims [(''clientId'', ''u2'')] JsUndefined" aliceClaims
        sampleRuntime "''clientId''"]
    requireOwnership_admin_and_mismatch
      [of "ownedRequest aliceClaims [] (JsObj [(''clientId'', JsStr ''u2'')])" aliceClaims
        sampleRuntime "''clientId''"]
  by (simp add: ownedRequest_def coachClaims_def aliceClaims_def getBodyField_def)




section \<open>The access guard: whose attributes the checks read\<close>

text \<open>
  C10: the claims \<open>authenticate\<close> attaches to the request are exactly those embedded in
  the access token when it was issued (principal id, e-mail, role). The store lookup
  tests only that the principal exists and is active: the outcome is the same on every
  store in which it does, whatever role and e-mail that store now holds, and the role
  and ownership checks that follow decide on the attached claims for as long as the
  token lives.
\<close>

theorem authenticate_attaches_token_claims:
  assumes "authorization req = Some (''Bearer '' @ generateAccessToken cfg issued claims)"
    and "now div 1000 < issued div 1000 + accessExpiry cfg"
    and "user_findUnique_id db (userId claims) = Some u"
    and "user_active u"
  shows "authenticate cfg db now req = Inr (req\<lparr>user := Some claims\<rparr>)
       \<and> (\<forall>db'. (\<exists>u'. user_findUnique_id db' (userId claims) = Some u' \<and> user_active u')
            \<longrightarrow> authenticate cfg db' now req = authenticate cfg db now req)
       \<and> (\<forall>roles. requireRole roles (req\<lparr>user := Some claims\<rparr>)
            = (if role claims \<in> set roles then Inr (req\<lparr>user := Some claims\<rparr>)
               else Inl (ForbiddenError ''Insufficient permissions'')))
       \<and> (\<forall>paramName. requireOwnership rt paramName (req\<lparr>user := Some claims\<rparr>)
            = (if role claims = ADMIN then Inr (req\<lparr>user := Some claims\<rparr>)
               else if truthy (resourceClientId rt paramName req)
                       \<and> resourceClientId rt paramName req \<noteq> JsStr (userId claims)
               then Inl (ForbiddenError ''Cannot access another user's data'')
               else Inr (req\<lparr>user := Some claims\<rparr>)))"
proof -
  have v: "jwt_verify (generateAccessToken cfg issued claims) (accessSecret cfg) (now div 1000) = Inr claims"
    using assms(2) by (simp add: generateAccessToken_def jwt_verify_sign)
  have n: "generateAccessToken cfg issued claims \<noteq> []"
    by (simp add: generateAccessToken_def jwt_sign_nonempty)
  have a: "authenticate cfg d now req = Inr (req\<lparr>user := Some claims\<rparr>)"
    if "user_findUnique_id d (userId claims) = Some u'" "user_active u'" for d u'
    using that assms(1) v n by (simp add: authenticate_def bearerToken_Bearer)
  have o: "resourceClientId rt paramName (req\<lparr>user := Some claims\<rparr>) = resourceClientId rt paramName req"
    for paramName
    by (simp add: resourceClientId_def getParam_def getBodyField_def)
  show ?thesis
    using a [OF assms(3) assms(4)] a o by (auto simp: requireRole_def requireOwnership_def)
qed

theorem authenticate_attaches_token_claims_witness:
  "user_findUnique_id dbPromoted (userId aliceClaims)
     = Some (alice\<lparr>user_email := ''alice@newmail.example'', user_role := ADMIN\<rparr>)
   \<and> authenticate cfg0 dbPromoted (t0 + 60000) (bearerRequest (generateAccessToken cfg0 t0 aliceClaims))
     = Inr ((bearerRequest (generateAccessToken cfg0 t0 aliceClaims))\<lparr>user := Some aliceClaims\<rparr>)
   \<and> requireRole [ADMIN] ((bearerRequest (generateAccessToken cfg0 t0 aliceClaims))\<lparr>user := Some aliceClaims\<rparr>)
     = Inl (ForbiddenError ''Insufficient permissions'')"
proof -
  have h: "authorization (bearerRequest tok) = Some (''Bearer '' @ tok)" for tok
    by (simp add: bearerRequest_def)
  have t: "(t0 + 60000) div 1000 < t0 div 1000 + accessExpiry cfg0"
    by (simp add: t0_def cfg0_def)
  have u: "user_findUnique_id dbPromoted (userId aliceClaims)
     = Some (alice\<lparr>user_email := ''alice@newmail.example'', user_role := ADMIN\<rparr>)"
    by (simp add: user_findUnique_id_def dbPromoted_def db0_def aliceClaims_def coach_def alice_def)
  have a: "user_active (alice\<lparr>user_email := ''alice@newmail.example'', user_role := ADMIN\<rparr>)"
    by (simp add: alice_def)
  show ?thesis
    using authenticate_attaches_token_claims [OF h t u a] u
    by (simp add: aliceClaims_def)
qed

end
